theory Spec2Isabelle
  imports Complex_Main "HOL-Library.Word"
begin

section \<open>Objects of the runtime\<close>

text \<open>
  A JavaScript object used as a table is the list of its own properties, and a read
  \<open>table[name]\<close> that finds no own property goes on to \<open>Object.prototype\<close>.  The
  members of \<open>Object.prototype\<close> are the accessor \<open>__proto__\<close>, which gives the
  prototype of the object it is read from, and the built-in functions below.  The
  members of \<open>Array.prototype\<close> are those of ECMAScript 2023.  A built-in member is
  a value of the runtime: the model names it and does not look inside it.
\<close>

datatype builtin =
    ObjectPrototype
  | ArrayPrototype
  | ObjectFunction string
  | ArrayFunction string

definition OBJECT_PROTOTYPE_FUNCTIONS :: "string list" where
  "OBJECT_PROTOTYPE_FUNCTIONS =
    [''constructor'', ''__defineGetter__'', ''__defineSetter__'', ''hasOwnProperty'',
     ''__lookupGetter__'', ''__lookupSetter__'', ''isPrototypeOf'', ''propertyIsEnumerable'',
     ''toString'', ''valueOf'', ''toLocaleString'']"

definition ARRAY_PROTOTYPE_FUNCTIONS :: "string list" where
  "ARRAY_PROTOTYPE_FUNCTIONS =
    [''constructor'', ''at'', ''concat'', ''copyWithin'', ''fill'', ''find'', ''findIndex'',
     ''findLast'', ''findLastIndex'', ''lastIndexOf'', ''pop'', ''push'', ''reverse'', ''shift'',
     ''unshift'', ''slice'', ''sort'', ''splice'', ''includes'', ''indexOf'', ''join'', ''keys'',
     ''entries'', ''values'', ''forEach'', ''filter'', ''flat'', ''flatMap'', ''map'', ''every'',
     ''some'', ''reduce'', ''reduceRight'', ''toLocaleString'', ''toString'', ''toReversed'',
     ''toSorted'', ''toSpliced'', ''with'']"

text \<open>The member of \<open>Object.prototype\<close> that a plain object inherits under a name.\<close>

definition object_member :: "string \<Rightarrow> builtin option" where
  "object_member property =
    (if property = ''__proto__'' then Some ObjectPrototype
     else if property \<in> set OBJECT_PROTOTYPE_FUNCTIONS then Some (ObjectFunction property)
     else None)"

definition inherited :: "string \<Rightarrow> bool" where
  "inherited property = (object_member property \<noteq> None)"

section \<open>Token/Cost Estimator\<close>

text \<open>
  The numbers of JavaScript are IEEE doubles.  The model leaves them abstract: an
  arithmetic gives the number a decimal literal denotes and the three operations the
  estimator uses.  \<open>real_arithmetic\<close> is the arithmetic of the real numbers, which
  the doubles round.

  The result \<open>null\<close> is \<open>None\<close>.  For a model name that the price table inherits from
  \<open>Object.prototype\<close> the value \<open>pricing\<close> is a built-in member, which is truthy and
  has no property \<open>prompt\<close> or \<open>completion\<close>: both products are \<open>NaN\<close>, and so is
  their sum.
\<close>

record 'n arithmetic =
  lit :: "rat \<Rightarrow> 'n"
  fdiv :: "'n \<Rightarrow> 'n \<Rightarrow> 'n"
  fmul :: "'n \<Rightarrow> 'n \<Rightarrow> 'n"
  fadd :: "'n \<Rightarrow> 'n \<Rightarrow> 'n"


datatype 'n cost = Cost 'n | NaN

record OpenAiPricing =
  prompt :: rat
  completion :: rat

definition OPENAI_PRICING_PER_MILLION :: "(string \<times> OpenAiPricing) list" where
  "OPENAI_PRICING_PER_MILLION =
    [(''gpt-4o-mini'', \<lparr>prompt = 15 / 100, completion = 6 / 10\<rparr>),
     (''gpt-4o'', \<lparr>prompt = 5, completion = 15\<rparr>),
     (''gpt-4.1-mini'', \<lparr>prompt = 3 / 10, completion = 12 / 10\<rparr>),
     (''gpt-4.1'', \<lparr>prompt = 5, completion = 15\<rparr>)]"

definition estimateOpenAiCost :: "'n arithmetic \<Rightarrow> 'n \<Rightarrow> 'n \<Rightarrow> string \<Rightarrow> 'n cost option" where
  "estimateOpenAiCost ar promptTokens completionTokens model =
    (case map_of OPENAI_PRICING_PER_MILLION model of
       None \<Rightarrow> if inherited model then Some NaN else None
     | Some pricing \<Rightarrow>
         (let promptCost =
                fmul ar (fdiv ar promptTokens (lit ar 1000000)) (lit ar (prompt pricing));
              completionCost =
                fmul ar (fdiv ar completionTokens (lit ar 1000000)) (lit ar (completion pricing))
          in Some (Cost (fadd ar promptCost completionCost))))"

definition DEFAULT_OPENAI_MODEL :: string where
  "DEFAULT_OPENAI_MODEL = ''gpt-5-nano-2025-08-07''"

section \<open>Strings and JSON values\<close>

text \<open>
  A JavaScript string is a sequence of code units.  Keys, language codes and
  translated texts are modelled as \<open>string\<close>, one \<open>char\<close> per code unit
  in the range 0..255; the raw text of a file, where the byte-order mark U+FEFF
  matters, is a list of 16-bit code units.
\<close>

type_synonym utf16 = "16 word list"

definition BOM :: "16 word" where
  "BOM = 0xFEFF"

text \<open>\<open>String.prototype.trim\<close> removes white space and line terminators at both
  ends: in the range of \<open>char\<close> these are U+0009..U+000D, U+0020 and U+00A0.\<close>

definition is_space :: "char \<Rightarrow> bool" where
  "is_space c = (of_char c \<in> {9, 10, 11, 12, 13, 32, 160 :: nat})"

definition trim :: "string \<Rightarrow> string" where
  "trim s = rev (dropWhile is_space (rev (dropWhile is_space s)))"

text \<open>\<open>String.prototype.toLowerCase\<close> on the code units 0..255: the letters A..Z
  and the Latin-1 capitals U+00C0..U+00DE (without the sign U+00D7) move up by 32.\<close>

definition lower_char :: "char \<Rightarrow> char" where
  "lower_char c =
    (let n = (of_char c :: nat)
     in if (65 \<le> n \<and> n \<le> 90) \<or> (192 \<le> n \<and> n \<le> 222 \<and> n \<noteq> 215)
        then char_of (n + 32) else c)"

definition toLowerCase :: "string \<Rightarrow> string" where
  "toLowerCase s = map lower_char s"

definition startsWith :: "string \<Rightarrow> string \<Rightarrow> bool" where
  "startsWith s p = (take (length p) s = p)"

definition endsWith :: "string \<Rightarrow> string \<Rightarrow> bool" where
  "endsWith s p = (length p \<le> length s \<and> drop (length s - length p) s = p)"

text \<open>\<open>key.split('.')\<close>: the segments between the dots; never the empty list.\<close>

fun split_dot :: "string \<Rightarrow> string list" where
  "split_dot [] = [[]]"
| "split_dot (c # cs) =
    (if c = CHR ''.'' then [] # split_dot cs
     else (case split_dot cs of [] \<Rightarrow> [[c]] | s # ss \<Rightarrow> (c # s) # ss))"

text \<open>
  The values \<open>JSON.parse\<close> produces.  An object is the list of its own properties in
  the order \<open>Object.entries\<close> enumerates them.  A value that a read can give is a JSON
  value or a built-in member.
\<close>

datatype json =
    JNull
  | JBool bool
  | JNum real
  | JStr string
  | JArr "json list"
  | JObj "(string \<times> json) list"

datatype jsval = Json json | Builtin builtin

fun truthy :: "json \<Rightarrow> bool" where
  "truthy JNull = False"
| "truthy (JBool b) = b"
| "truthy (JNum n) = (n \<noteq> 0)"
| "truthy (JStr s) = (s \<noteq> [])"
| "truthy (JArr xs) = True"
| "truthy (JObj kvs) = True"

text \<open>\<open>typeof v === 'object'\<close> holds of objects, arrays and \<open>null\<close>.\<close>

fun typeof_object :: "json \<Rightarrow> bool" where
  "typeof_object JNull = True"
| "typeof_object (JArr xs) = True"
| "typeof_object (JObj kvs) = True"
| "typeof_object v = False"

fun isArray :: "json \<Rightarrow> bool" where
  "isArray (JArr xs) = True"
| "isArray v = False"

text \<open>Every built-in member is truthy; the two prototypes are of type \<open>object\<close>, the
  functions are of type \<open>function\<close>.\<close>

fun truthy_val :: "jsval \<Rightarrow> bool" where
  "truthy_val (Json v) = truthy v"
| "truthy_val (Builtin b) = True"

fun typeof_object_val :: "jsval \<Rightarrow> bool" where
  "typeof_object_val (Json v) = typeof_object v"
| "typeof_object_val (Builtin ObjectPrototype) = True"
| "typeof_object_val (Builtin ArrayPrototype) = True"
| "typeof_object_val (Builtin b) = False"

subsection \<open>Property order and property access\<close>

text \<open>
  An array index is the canonical decimal form of a number below \<open>2^32 - 1\<close>.  A
  JavaScript object enumerates its array-index keys first, in ascending numeric
  order, and then its other string keys in the order of their creation.
\<close>

definition is_digit :: "char \<Rightarrow> bool" where
  "is_digit c = (48 \<le> (of_char c :: nat) \<and> (of_char c :: nat) \<le> 57)"

definition decimal :: "string \<Rightarrow> int" where
  "decimal s = foldl (\<lambda>n c. 10 * n + (of_char c - 48)) 0 s"

definition is_array_index :: "string \<Rightarrow> bool" where
  "is_array_index s =
    (s \<noteq> [] \<and> list_all is_digit s \<and> (s = ''0'' \<or> hd s \<noteq> CHR ''0'')
     \<and> decimal s < 4294967295)"

fun has_key :: "string \<Rightarrow> (string \<times> 'v) list \<Rightarrow> bool" where
  "has_key k [] = False"
| "has_key k ((k', v) # ps) = (k' = k \<or> has_key k ps)"

fun replace_value :: "string \<Rightarrow> 'v \<Rightarrow> (string \<times> 'v) list \<Rightarrow> (string \<times> 'v) list" where
  "replace_value k v [] = []"
| "replace_value k v ((k', v') # ps) =
    (if k' = k then (k, v) # ps else (k', v') # replace_value k v ps)"

fun insert_index :: "string \<Rightarrow> 'v \<Rightarrow> (string \<times> 'v) list \<Rightarrow> (string \<times> 'v) list" where
  "insert_index k v [] = [(k, v)]"
| "insert_index k v ((k', v') # ps) =
    (if is_array_index k' \<and> decimal k' < decimal k
     then (k', v') # insert_index k v ps
     else (k, v) # (k', v') # ps)"

text \<open>
  The own properties after the assignment \<open>obj[k] = v\<close> on an object whose prototype
  is \<open>Object.prototype\<close>: an existing property keeps its place, a new array-index key
  goes to its numeric place, any other new key goes last.  The name \<open>__proto__\<close>,
  when it is not an own property, is the accessor of \<open>Object.prototype\<close>: the
  assignment creates no property (it sets the prototype of the object when \<open>v\<close> is an
  object and does nothing for a string).
\<close>

definition js_put :: "string \<Rightarrow> 'v \<Rightarrow> (string \<times> 'v) list \<Rightarrow> (string \<times> 'v) list" where
  "js_put k v ps =
    (if has_key k ps then replace_value k v ps
     else if k = ''__proto__'' then ps
     else if is_array_index k then insert_index k v ps
     else ps @ [(k, v)])"

text \<open>
  The read \<open>current[part]\<close> where \<open>typeof current === 'object'\<close>.  The list \<open>pp\<close>
  holds the properties that writes have added to \<open>Object.prototype\<close>; it is empty
  in a runtime no write has touched.  \<open>prototype_get\<close> is the read of an own property
  of \<open>Object.prototype\<close> other than \<open>__proto__\<close>.  An object reads an own property,
  then the members it inherits; an array reads an element, its length, the members of
  \<open>Array.prototype\<close> and then those of \<open>Object.prototype\<close>; \<open>null\<close> is the prototype
  of \<open>Object.prototype\<close>.  \<open>None\<close> is \<open>undefined\<close>.
\<close>

definition prototype_get :: "(string \<times> json) list \<Rightarrow> string \<Rightarrow> jsval option" where
  "prototype_get pp part =
    (case map_of pp part of
       Some v \<Rightarrow> Some (Json v)
     | None \<Rightarrow>
         if part \<in> set OBJECT_PROTOTYPE_FUNCTIONS then Some (Builtin (ObjectFunction part))
         else None)"

fun js_get :: "(string \<times> json) list \<Rightarrow> jsval \<Rightarrow> string \<Rightarrow> jsval option" where
  "js_get pp (Json (JObj kvs)) part =
    (case map_of kvs part of
       Some v \<Rightarrow> Some (Json v)
     | None \<Rightarrow>
         if part = ''__proto__'' then Some (Builtin ObjectPrototype) else prototype_get pp part)"
| "js_get pp (Json (JArr xs)) part =
    (if is_array_index part \<and> decimal part < int (length xs)
     then Some (Json (xs ! nat (decimal part)))
     else if part = ''length'' then Some (Json (JNum (real (length xs))))
     else if part = ''__proto__'' then Some (Builtin ArrayPrototype)
     else if part \<in> set ARRAY_PROTOTYPE_FUNCTIONS then Some (Builtin (ArrayFunction part))
     else prototype_get pp part)"
| "js_get pp (Builtin ObjectPrototype) part =
    (if part = ''__proto__'' then Some (Json JNull) else prototype_get pp part)"
| "js_get pp (Builtin ArrayPrototype) part =
    (if part = ''__proto__'' then Some (Builtin ObjectPrototype)
     else if part = ''length'' then Some (Json (JNum 0))
     else if part \<in> set ARRAY_PROTOTYPE_FUNCTIONS then Some (Builtin (ArrayFunction part))
     else prototype_get pp part)"
| "js_get pp v part = None"

section \<open>Key Path Codec\<close>

text \<open>
  \<open>flattenObject(value, prefix, out)\<close>.  The loop over \<open>Object.entries(value)\<close> is
  \<open>flatten_entries\<close>; the recursive call is made for plain objects only, so it is
  the loop over the entries of that object.  The table \<open>out\<close> is an object whose
  properties are set by assignment.
\<close>

function flatten_entries ::
  "(string \<times> json) list \<Rightarrow> string \<Rightarrow> (string \<times> string) list \<Rightarrow> (string \<times> string) list"
where
  "flatten_entries [] prefix out = out"
| "flatten_entries ((key, entry) # rest) prefix out =
    (let fullKey = (if prefix \<noteq> [] then prefix @ ''.'' @ key else key)
     in case entry of
          JStr s \<Rightarrow> flatten_entries rest prefix (js_put fullKey s out)
        | JObj kvs \<Rightarrow> flatten_entries rest prefix (flatten_entries kvs fullKey out)
        | _ \<Rightarrow> flatten_entries rest prefix out)"
  by pat_completeness auto
termination
  by (relation "measure (\<lambda>(kvs, prefix, out). size_list (size_prod (\<lambda>k. 0) size) kvs)") auto

text \<open>\<open>Object.entries\<close> of an array: its elements under their indices.\<close>

fun show_nat :: "nat \<Rightarrow> string" where
  "show_nat n =
    (if n < 10 then [char_of (48 + n)] else show_nat (n div 10) @ [char_of (48 + n mod 10)])"

definition array_entries :: "json list \<Rightarrow> (string \<times> json) list" where
  "array_entries xs = map (\<lambda>i. (show_nat i, xs ! i)) [0..<length xs]"

fun flattenObject :: "json \<Rightarrow> string \<Rightarrow> (string \<times> string) list \<Rightarrow> (string \<times> string) list" where
  "flattenObject (JObj kvs) prefix out = flatten_entries kvs prefix out"
| "flattenObject (JArr xs) prefix out = flatten_entries (array_entries xs) prefix out"
| "flattenObject v prefix out = out"

text \<open>
  \<open>setNestedValue(target, key, value)\<close> on the own properties of a plain object, the
  declared type of the target, in a runtime whose \<open>Object.prototype\<close> no write has
  touched.  The loop over all parts but the last reads \<open>current[part]\<close>; a missing,
  falsy, non-object or array value, and so also an inherited function, is replaced
  by a fresh object; the loop descends into the object at the part.  For the part
  \<open>__proto__\<close> that is no own property the read gives \<open>Object.prototype\<close>, a
  non-array object: the loop descends into it, and the rest of the path is written
  on \<open>Object.prototype\<close> and not on the document.  The last part is assigned the
  value.  (\<open>split\<close> never returns the empty list; there \<open>parts[parts.length - 1]\<close>
  would be \<open>undefined\<close>.)

  The result is the document after the call and, when the write has gone to
  \<open>Object.prototype\<close>, the parts and the value written there.
\<close>

fun set_path ::
  "(string \<times> json) list \<Rightarrow> string list \<Rightarrow> string \<Rightarrow>
   (string \<times> json) list \<times> (string list \<times> string) option"
where
  "set_path current [] val = (js_put ''undefined'' (JStr val) current, None)"
| "set_path current [part] val = (js_put part (JStr val) current, None)"
| "set_path current (part # rest) val =
    (if part = ''__proto__'' \<and> map_of current part = None then (current, Some (rest, val))
     else
       (let child = (case map_of current part of Some (JObj c) \<Rightarrow> c | _ \<Rightarrow> []);
            (child', w) = set_path child rest val
        in (js_put part (JObj child') current, w)))"

definition setNestedValue ::
  "(string \<times> json) list \<Rightarrow> string \<Rightarrow> string \<Rightarrow>
   (string \<times> json) list \<times> (string list \<times> string) option"
where
  "setNestedValue target key val = set_path target (split_dot key) val"

text \<open>The properties that \<open>Object.prototype\<close> has gained when the parts \<open>rest\<close> have
  been written on it with a value: the write finds built-in functions or nothing
  along the parts.  A further part \<open>__proto__\<close> is not followed (\<open>None\<close>).\<close>

definition prototype_after :: "string list \<times> string \<Rightarrow> (string \<times> json) list option" where
  "prototype_after w =
    (case w of (rest, val) \<Rightarrow>
       if ''__proto__'' \<in> set rest then None else Some (fst (set_path [] rest val)))"

text \<open>\<open>getNestedValue(target, key)\<close>; \<open>None\<close> is \<open>undefined\<close>.\<close>

fun get_path :: "(string \<times> json) list \<Rightarrow> jsval \<Rightarrow> string list \<Rightarrow> jsval option" where
  "get_path pp current [] = Some current"
| "get_path pp current (part # rest) =
    (if \<not> truthy_val current \<or> \<not> typeof_object_val current then None
     else (case js_get pp current part of
             None \<Rightarrow> None
           | Some next \<Rightarrow> get_path pp next rest))"

definition getNestedValue :: "(string \<times> json) list \<Rightarrow> json \<Rightarrow> string \<Rightarrow> jsval option" where
  "getNestedValue pp target key = get_path pp (Json target) (split_dot key)"

section \<open>Language Registry\<close>

definition POPULAR_LANGUAGE_ORDER :: "string list" where
  "POPULAR_LANGUAGE_ORDER =
    [''en'', ''es'', ''pt'', ''fr'', ''de'', ''it'', ''ja'', ''zh'', ''ru'', ''ko'']"

definition normalizeLanguageCode :: "string \<Rightarrow> string" where
  "normalizeLanguageCode code =
    (let lower = toLowerCase code
     in if lower = ''zn'' \<or> startsWith lower ''zh'' then ''zh''
        else if startsWith lower ''pt'' then ''pt''
        else lower)"

text \<open>\<open>Array.prototype.indexOf\<close>: the first position, or \<open>-1\<close>.\<close>

fun indexOf :: "'a list \<Rightarrow> 'a \<Rightarrow> int" where
  "indexOf [] x = - 1"
| "indexOf (y # ys) x =
    (if y = x then 0 else (let i = indexOf ys x in if i = - 1 then - 1 else i + 1))"

text \<open>
  \<open>String.prototype.localeCompare\<close> belongs to the JavaScript runtime: it is the
  parameter \<open>localeCompare\<close> of the comparison.
\<close>

definition compareLanguageCodes :: "(string \<Rightarrow> string \<Rightarrow> int) \<Rightarrow> string \<Rightarrow> string \<Rightarrow> int" where
  "compareLanguageCodes localeCompare a b =
    (let aKey = normalizeLanguageCode a;
         bKey = normalizeLanguageCode b;
         aRank = indexOf POPULAR_LANGUAGE_ORDER aKey;
         bRank = indexOf POPULAR_LANGUAGE_ORDER bKey
     in if aRank \<noteq> - 1 \<and> bRank \<noteq> - 1
        then (if aRank \<noteq> bRank then aRank - bRank else localeCompare a b)
        else if aRank \<noteq> - 1 then - 1
        else if bRank \<noteq> - 1 then 1
        else if aKey \<noteq> bKey then localeCompare aKey bKey
        else localeCompare a b)"



text \<open>
  \<open>Language\<close> is the type of the application, whose names are strings.
  \<open>LanguageInfo\<close> is the type of the extension: \<open>getLanguageInfo\<close> reads the name
  from a table with \<open>map[normalized] ?? code\<close>, which for a normalized code that the
  table inherits from \<open>Object.prototype\<close> is the built-in member.
\<close>

record Language =
  code :: string
  name :: string
  flag :: string

datatype cell_value = Text string | Member builtin

record LanguageInfo =
  code' :: string
  name' :: cell_value
  flag' :: string

definition language_names :: "(string \<times> string) list" where
  "language_names =
    [(''en'', ''English''), (''es'', ''Spanish''), (''pt'', ''Portuguese''),
     (''fr'', ''French''), (''de'', ''German''), (''it'', ''Italian''),
     (''ja'', ''Japanese''), (''zh'', ''Chinese''), (''ru'', ''Russian''),
     (''ko'', ''Korean'')]"

definition getLanguageInfo :: "string \<Rightarrow> LanguageInfo" where
  "getLanguageInfo c =
    (let normalized = normalizeLanguageCode c
     in \<lparr>code' = c,
         name' = (case map_of language_names normalized of
                    Some n \<Rightarrow> Text n
                  | None \<Rightarrow> (case object_member normalized of
                               Some b \<Rightarrow> Member b
                             | None \<Rightarrow> Text c)),
         flag' = []\<rparr>)"

section \<open>Catalog Store\<close>

text \<open>
  The catalog directory is the list of its entries, in the order \<open>readdirSync\<close> lists
  them.  An entry is a file with its text, a file with its text that cannot be
  written, or an entry that \<open>readFileSync\<close> cannot read (a directory, a file without
  read permission).  A new file can always be created.  \<open>JSON.parse\<close> and
  \<open>JSON.stringify\<close> belong to the runtime: they are the parameters \<open>JSON_parse\<close>
  (\<open>None\<close> when it throws) and \<open>JSON_stringify\<close> of the operations.

  An operation returns \<open>Inl\<close> when it does not complete in the model: an error of
  the file system or a \<open>TypeError\<close> that it propagates, a write that has gone to
  \<open>Object.prototype\<close> (with the parts and the value written there), or a write
  into a document that is a top-level array, which the model does not follow.
\<close>

datatype entry = File utf16 | ReadOnly utf16 | Unreadable

type_synonym directory = "(string \<times> entry) list"

datatype failure =
    ReadError
  | WriteError
  | TypeError
  | PrototypeWrite "string list" string
  | ArrayDocument

definition readdirSync :: "directory \<Rightarrow> string list" where
  "readdirSync dir = map fst dir"

definition existsSync :: "directory \<Rightarrow> string \<Rightarrow> bool" where
  "existsSync dir filePath = (map_of dir filePath \<noteq> None)"

fun readFileSync :: "entry \<Rightarrow> failure + utf16" where
  "readFileSync (File content) = Inr content"
| "readFileSync (ReadOnly content) = Inr content"
| "readFileSync Unreadable = Inl ReadError"

fun writeFileSync :: "directory \<Rightarrow> string \<Rightarrow> utf16 \<Rightarrow> failure + directory" where
  "writeFileSync [] filePath content = Inr [(filePath, File content)]"
| "writeFileSync ((f, e) # dir) filePath content =
    (if f = filePath
     then (case e of File old \<Rightarrow> Inr ((f, File content) # dir) | _ \<Rightarrow> Inl WriteError)
     else (case writeFileSync dir filePath content of
             Inl err \<Rightarrow> Inl err
           | Inr dir' \<Rightarrow> Inr ((f, e) # dir')))"

text \<open>\<open>raw.replace(/^\\uFEFF/, '')\<close>\<close>

fun strip_bom :: "utf16 \<Rightarrow> utf16" where
  "strip_bom [] = []"
| "strip_bom (u # us) = (if u = BOM then us else u # us)"

text \<open>\<open>readJsonFile\<close>: the call of \<open>readFileSync\<close> stands before the \<open>try\<close> block, which
  holds the call of \<open>JSON.parse\<close> only.\<close>

definition readJsonFile :: "(utf16 \<Rightarrow> json option) \<Rightarrow> directory \<Rightarrow> string \<Rightarrow> failure + json" where
  "readJsonFile JSON_parse dir filePath =
    (case map_of dir filePath of
       None \<Rightarrow> Inr (JObj [])
     | Some e \<Rightarrow>
         (case readFileSync e of
            Inl err \<Rightarrow> Inl err
          | Inr content \<Rightarrow>
              (let raw = strip_bom content
               in case JSON_parse raw of
                    None \<Rightarrow> Inr (JObj [])
                  | Some parsed \<Rightarrow>
                      if typeof_object parsed \<and> parsed \<noteq> JNull then Inr parsed
                      else Inr (JObj []))))"

definition writeJsonFile ::
  "(json \<Rightarrow> utf16) \<Rightarrow> directory \<Rightarrow> string \<Rightarrow> json \<Rightarrow> failure + directory"
where
  "writeJsonFile JSON_stringify dir filePath data =
    writeFileSync dir filePath (JSON_stringify data @ [0x0A])"

text \<open>The path of a language file in the catalog directory, and
  \<open>path.basename(file, '.json')\<close> of a name that ends with \<open>.json\<close>.\<close>

definition json_path :: "string \<Rightarrow> string" where
  "json_path c = c @ ''.json''"

definition basename_json :: "string \<Rightarrow> string" where
  "basename_json file = take (length file - 5) file"

definition json_files :: "directory \<Rightarrow> string list" where
  "json_files dir = filter (\<lambda>file. endsWith file ''.json'') (readdirSync dir)"

text \<open>\<open>setNestedValue(json, key, value); writeJsonFile(filePath, json)\<close> for a document
  that has been read.\<close>

definition set_and_write ::
  "(json \<Rightarrow> utf16) \<Rightarrow> directory \<Rightarrow> string \<Rightarrow> json \<Rightarrow> string \<Rightarrow> string \<Rightarrow> failure + directory"
where
  "set_and_write JSON_stringify dir filePath json key val =
    (case json of
       JObj kvs \<Rightarrow>
         (case setNestedValue kvs key val of
            (doc, None) \<Rightarrow> writeJsonFile JSON_stringify dir filePath (JObj doc)
          | (doc, Some (rest, v)) \<Rightarrow> Inl (PrototypeWrite rest v))
     | _ \<Rightarrow> Inl ArrayDocument)"

definition updateTranslationValue ::
  "(utf16 \<Rightarrow> json option) \<Rightarrow> (json \<Rightarrow> utf16) \<Rightarrow> directory \<Rightarrow> string \<Rightarrow> string \<Rightarrow> string \<Rightarrow>
   failure + directory"
where
  "updateTranslationValue JSON_parse JSON_stringify dir langCode key val =
    (let filePath = json_path langCode
     in case readJsonFile JSON_parse dir filePath of
          Inl err \<Rightarrow> Inl err
        | Inr json \<Rightarrow> set_and_write JSON_stringify dir filePath json key val)"

text \<open>One iteration of the loop of \<open>addTranslationKey\<close>, and the loop.\<close>

definition addKey_file ::
  "(utf16 \<Rightarrow> json option) \<Rightarrow> (json \<Rightarrow> utf16) \<Rightarrow> string \<Rightarrow> string \<Rightarrow> string \<Rightarrow> string \<Rightarrow> directory \<Rightarrow>
   failure + directory"
where
  "addKey_file JSON_parse JSON_stringify key sourceLang val c dir =
    (let filePath = json_path c
     in case readJsonFile JSON_parse dir filePath of
          Inl err \<Rightarrow> Inl err
        | Inr json \<Rightarrow>
            if getNestedValue [] json key = None
            then set_and_write JSON_stringify dir filePath json key
                   (if c = sourceLang then val else [])
            else Inr dir)"

fun addKey_loop ::
  "(utf16 \<Rightarrow> json option) \<Rightarrow> (json \<Rightarrow> utf16) \<Rightarrow> string \<Rightarrow> string \<Rightarrow> string \<Rightarrow> string list \<Rightarrow>
   directory \<Rightarrow> failure + directory"
where
  "addKey_loop JSON_parse JSON_stringify key sourceLang val [] dir = Inr dir"
| "addKey_loop JSON_parse JSON_stringify key sourceLang val (c # cs) dir =
    (case addKey_file JSON_parse JSON_stringify key sourceLang val c dir of
       Inl err \<Rightarrow> Inl err
     | Inr dir' \<Rightarrow> addKey_loop JSON_parse JSON_stringify key sourceLang val cs dir')"

definition addTranslationKey ::
  "(utf16 \<Rightarrow> json option) \<Rightarrow> (json \<Rightarrow> utf16) \<Rightarrow> directory \<Rightarrow> string \<Rightarrow> string \<Rightarrow> string \<Rightarrow>
   failure + directory"
where
  "addTranslationKey JSON_parse JSON_stringify dir key sourceLang val =
    (let files = json_files dir;
         codes = map basename_json files;
         targetCodes = (if sourceLang \<in> set codes then codes else codes @ [sourceLang])
     in addKey_loop JSON_parse JSON_stringify key sourceLang val targetCodes dir)"

subsection \<open>Loading the catalog\<close>

text \<open>\<open>Array.prototype.sort\<close> with a comparison function: a stable sort, here by
  insertion.\<close>

fun insert_by :: "('a \<Rightarrow> 'a \<Rightarrow> int) \<Rightarrow> 'a \<Rightarrow> 'a list \<Rightarrow> 'a list" where
  "insert_by cmp x [] = [x]"
| "insert_by cmp x (y # ys) =
    (if cmp x y \<le> 0 then x # y # ys else y # insert_by cmp x ys)"

definition sort_by :: "('a \<Rightarrow> 'a \<Rightarrow> int) \<Rightarrow> 'a list \<Rightarrow> 'a list" where
  "sort_by cmp xs = foldr (insert_by cmp) xs []"

text \<open>\<open>allKeys.add(key)\<close> on a \<open>Set\<close>, which keeps the order of insertion.\<close>

definition set_add :: "'a \<Rightarrow> 'a list \<Rightarrow> 'a list" where
  "set_add x xs = (if x \<in> set xs then xs else xs @ [x])"

text \<open>
  The loop that reads the language files.  \<open>perLangValues\<close> is read back only at the
  codes the loop has assigned; for the code \<open>__proto__\<close> the assignment sets the
  prototype of the table and the read gives it back, so the table is a map from the
  codes to the flattened documents.  A read error of a file leaves the loop.
\<close>

fun load_files ::
  "(utf16 \<Rightarrow> json option) \<Rightarrow> directory \<Rightarrow> string list \<Rightarrow>
   (string \<rightharpoonup> (string \<times> string) list) \<times> string list \<Rightarrow>
   failure + (string \<rightharpoonup> (string \<times> string) list) \<times> string list"
where
  "load_files JSON_parse dir [] st = Inr st"
| "load_files JSON_parse dir (c # cs) (perLangValues, allKeys) =
    (let filePath = json_path c
     in case readJsonFile JSON_parse dir filePath of
          Inl err \<Rightarrow> Inl err
        | Inr json \<Rightarrow>
            (let flattened = flattenObject json [] []
             in load_files JSON_parse dir cs
                  (perLangValues(c \<mapsto> flattened), fold set_add (map fst flattened) allKeys)))"

text \<open>\<open>perLangValues[code]?.[key] ?? ''\<close>: the flattened document is an object with
  the prototype \<open>Object.prototype\<close>, and \<open>??\<close> keeps every value but \<open>undefined\<close> and
  \<open>null\<close>.\<close>

definition file_value :: "(string \<rightharpoonup> (string \<times> string) list) \<Rightarrow> string \<Rightarrow> string \<Rightarrow> cell_value" where
  "file_value perLangValues c k =
    (case perLangValues c of
       None \<Rightarrow> Text []
     | Some flattened \<Rightarrow>
         (case map_of flattened k of
            Some v \<Rightarrow> Text v
          | None \<Rightarrow> (case object_member k of Some b \<Rightarrow> Member b | None \<Rightarrow> Text [])))"

text \<open>
  The table \<open>values\<close> is given by its own properties, row by row.  The assignments
  \<open>values[key] = {}\<close> and \<open>values[key][code] = \<dots>\<close> create no own property for the name
  \<open>__proto__\<close>.
\<close>

definition build_row ::
  "(string \<rightharpoonup> (string \<times> string) list) \<Rightarrow> string list \<Rightarrow> string \<Rightarrow> (string \<rightharpoonup> cell_value)"
where
  "build_row perLangValues languageCodes k =
    fold (\<lambda>c row. if c = ''__proto__'' then row else row(c \<mapsto> file_value perLangValues c k))
         languageCodes Map.empty"

definition build_values ::
  "(string \<rightharpoonup> (string \<times> string) list) \<Rightarrow> string list \<Rightarrow> string list \<Rightarrow>
   (string \<rightharpoonup> (string \<rightharpoonup> cell_value))"
where
  "build_values perLangValues languageCodes keyList =
    fold (\<lambda>k vals. if k = ''__proto__'' then vals
                    else vals(k \<mapsto> build_row perLangValues languageCodes k))
         keyList Map.empty"

record TranslationKey =
  id' :: string
  key :: string
  tags :: "string list"

datatype status = ok | missingWorkspace | missingFolder | emptyFolder

text \<open>The payload of a load; the configuration values it passes through unchanged
  (API key, model, token report, locale, folder name) are left out.\<close>

record InitPayload =
  languages :: "LanguageInfo list"
  keys :: "TranslationKey list"
  values' :: "string \<rightharpoonup> (string \<rightharpoonup> cell_value)"
  sourceLangCode :: string
  status :: status

text \<open>\<open>readI18nData\<close>: \<open>hasRoot\<close> tells whether a workspace folder is open, \<open>i18nDir\<close> is the
  catalog directory when it is resolved and exists.\<close>

definition readI18nData ::
  "(utf16 \<Rightarrow> json option) \<Rightarrow> (string \<Rightarrow> string \<Rightarrow> int) \<Rightarrow> bool \<Rightarrow> directory option \<Rightarrow> string \<Rightarrow>
   failure + InitPayload"
where
  "readI18nData JSON_parse localeCompare hasRoot i18nDir sourcePreference =
    (if \<not> hasRoot then
       Inr \<lparr>languages = [], keys = [], values' = Map.empty,
            sourceLangCode = sourcePreference, status = missingWorkspace\<rparr>
     else case i18nDir of
       None \<Rightarrow>
         Inr \<lparr>languages = [], keys = [], values' = Map.empty,
              sourceLangCode = sourcePreference, status = missingFolder\<rparr>
     | Some dir \<Rightarrow>
         (let files = json_files dir
          in if files = [] then
               Inr \<lparr>languages = [], keys = [], values' = Map.empty,
                    sourceLangCode = sourcePreference, status = emptyFolder\<rparr>
             else
               (let languageCodes =
                      sort_by (compareLanguageCodes localeCompare) (map basename_json files)
                in case load_files JSON_parse dir languageCodes (Map.empty, []) of
                     Inl err \<Rightarrow> Inl err
                   | Inr (perLangValues, allKeys) \<Rightarrow>
                       (let keyList = sort_by localeCompare allKeys
                        in Inr \<lparr>languages = map getLanguageInfo languageCodes,
                                keys = map (\<lambda>k. \<lparr>id' = k, key = k, tags = []\<rparr>) keyList,
                                values' = build_values perLangValues languageCodes keyList,
                                sourceLangCode =
                                  (if sourcePreference \<in> set languageCodes then sourcePreference
                                   else (case languageCodes of
                                           [] \<Rightarrow> sourcePreference | c # cs \<Rightarrow> c)),
                                status = ok\<rparr>))))"

section \<open>Batch Translation Orchestrator\<close>

record TranslateAllJob =
  keyId :: string
  keyName :: string
  sourceText :: string
  targetLangCode :: string
  targetLangName :: string
  sourceLangName :: string

type_synonym TranslationValue = "string \<rightharpoonup> string"

text \<open>
  \<open>values[key.id]?.[langCode] || ''\<close>, as the receiver of \<open>.trim()\<close>.  The table
  \<open>values\<close> of the application is given by its own rows and their own cells, which
  are strings.  A cell that the row does not have, under a code that the row inherits
  from \<open>Object.prototype\<close>, reads as the built-in member, which is truthy and has no
  method \<open>trim\<close>: the call throws a \<open>TypeError\<close> (\<open>Fault\<close>).  When the table has no
  row under a key id that it inherits from \<open>Object.prototype\<close>, the built-in member
  stands for the row; what its property \<open>langCode\<close> gives belongs to the runtime and
  is the parameter \<open>member_cell\<close>.
\<close>

datatype cell_read = Read string | Fault

definition cell ::
  "(string \<Rightarrow> string \<Rightarrow> cell_read) \<Rightarrow> (string \<rightharpoonup> TranslationValue) \<Rightarrow> string \<Rightarrow> string \<Rightarrow> cell_read"
where
  "cell member_cell vals k c =
    (case vals k of
       Some row \<Rightarrow> (case row c of Some s \<Rightarrow> Read s | None \<Rightarrow> if inherited c then Fault else Read [])
     | None \<Rightarrow> if inherited k then member_cell k c else Read [])"

text \<open>The inner loop over the targets and the outer loop over the keys; \<open>jobs\<close> is the
  array the loops push to.\<close>

fun collect_targets ::
  "(string \<Rightarrow> string \<Rightarrow> cell_read) \<Rightarrow> (string \<rightharpoonup> TranslationValue) \<Rightarrow> string \<Rightarrow> TranslationKey \<Rightarrow>
   string \<Rightarrow> Language list \<Rightarrow> TranslateAllJob list \<Rightarrow> failure + TranslateAllJob list"
where
  "collect_targets member_cell vals srcName k srcText [] jobs = Inr jobs"
| "collect_targets member_cell vals srcName k srcText (target # targets) jobs =
    (case cell member_cell vals (id' k) (code target) of
       Fault \<Rightarrow> Inl TypeError
     | Read existing \<Rightarrow>
         if trim existing \<noteq> [] then collect_targets member_cell vals srcName k srcText targets jobs
         else collect_targets member_cell vals srcName k srcText targets
                (jobs @ [\<lparr>keyId = id' k,
                          keyName = key k,
                          sourceText = srcText,
                          targetLangCode = code target,
                          targetLangName = (if name target \<noteq> [] then name target else code target),
                          sourceLangName = srcName\<rparr>]))"

fun collect_keys ::
  "(string \<Rightarrow> string \<Rightarrow> cell_read) \<Rightarrow> (string \<rightharpoonup> TranslationValue) \<Rightarrow> string \<Rightarrow> string \<Rightarrow>
   Language list \<Rightarrow> TranslationKey list \<Rightarrow> TranslateAllJob list \<Rightarrow> failure + TranslateAllJob list"
where
  "collect_keys member_cell vals src srcName targets [] jobs = Inr jobs"
| "collect_keys member_cell vals src srcName targets (k # ks) jobs =
    (case cell member_cell vals (id' k) src of
       Fault \<Rightarrow> Inl TypeError
     | Read srcText \<Rightarrow>
         if trim srcText = [] then collect_keys member_cell vals src srcName targets ks jobs
         else (case collect_targets member_cell vals srcName k srcText targets jobs of
                 Inl err \<Rightarrow> Inl err
               | Inr jobs' \<Rightarrow> collect_keys member_cell vals src srcName targets ks jobs'))"

definition collectTranslateAllJobs ::
  "(string \<Rightarrow> string \<Rightarrow> cell_read) \<Rightarrow> TranslationKey list \<Rightarrow> (string \<rightharpoonup> TranslationValue) \<Rightarrow>
   Language list \<Rightarrow> string \<Rightarrow> failure + TranslateAllJob list"
where
  "collectTranslateAllJobs member_cell ks vals langs src =
    (let sourceLang = find (\<lambda>lang. code lang = src) langs;
         srcName = (case sourceLang of
                      None \<Rightarrow> src
                    | Some lang \<Rightarrow> if name lang \<noteq> [] then name lang else src);
         targets = filter (\<lambda>lang. code lang \<noteq> src) langs
     in if targets = [] then Inr [] else collect_keys member_cell vals src srcName targets ks [])"

subsection \<open>Running the batch\<close>

text \<open>
  The observable state of a run: the table \<open>values\<close> of the application, its current
  view, and the trace of the calls the run makes to its collaborators, in order.  An
  optional call (\<open>onProgress?.(...)\<close>, \<open>vscodeApi?.postMessage(...)\<close>) is recorded
  where it is evaluated; it reaches the callback when one is supplied.
\<close>

datatype view = dashboard | list | editor | settings

datatype event =
    Progress nat nat
  | Translate TranslateAllJob
  | PostUpdateValue string string string
  | Sleep nat

record AppState =
  app_values :: "string \<rightharpoonup> TranslationValue"
  currentView :: view
  events :: "event list"

definition emit :: "event \<Rightarrow> AppState \<Rightarrow> AppState" where
  "emit e st = st\<lparr>events := events st @ [e]\<rparr>"

text \<open>\<open>handleSave\<close> builds the new table with object literals: the spread copies the
  own properties, and a computed key defines an own property under every name.\<close>

definition handleSave :: "AppState \<Rightarrow> string \<Rightarrow> string \<Rightarrow> string \<Rightarrow> bool \<Rightarrow> AppState" where
  "handleSave st k langCode newValue stay =
    (let row = (case app_values st k of None \<Rightarrow> Map.empty | Some r \<Rightarrow> r);
         st1 = st\<lparr>app_values := (app_values st)(k \<mapsto> row(langCode \<mapsto> newValue))\<rparr>;
         st2 = emit (PostUpdateValue k langCode newValue) st1
     in if currentView st2 = editor \<and> \<not> stay then st2\<lparr>currentView := list\<rparr> else st2)"

datatype outcome = Done | Failed string | Thrown failure

text \<open>
  The translation provider is the parameter \<open>translateText\<close>: the answer to the
  \<open>n\<close>-th call of the run for a job, \<open>None\<close> when the call is rejected.  Each
  iteration of the loop calls the provider; on an answer it saves the cell; in both
  cases the \<open>finally\<close> block counts the job and reports progress; a rejected call
  returns the error at once; otherwise the loop sleeps before the next job.  An
  exception of \<open>collectTranslateAllJobs\<close> leaves \<open>handleTranslateAll\<close>.
\<close>

fun translate_loop ::
  "(nat \<Rightarrow> TranslateAllJob \<Rightarrow> string option) \<Rightarrow> nat \<Rightarrow> nat \<Rightarrow> nat \<Rightarrow> TranslateAllJob list \<Rightarrow>
   AppState \<Rightarrow> outcome \<times> AppState"
where
  "translate_loop translateText totalJobs index done [] st = (Done, st)"
| "translate_loop translateText totalJobs index done (job # rest) st =
    (let st1 = emit (Translate job) st
     in case translateText index job of
          None \<Rightarrow>
            (Failed ''errors.translationFailed'', emit (Progress (done + 1) totalJobs) st1)
        | Some translated \<Rightarrow>
            (let st2 = handleSave st1 (keyId job) (targetLangCode job) translated True;
                 st3 = emit (Progress (done + 1) totalJobs) st2;
                 st4 = (if int index < int totalJobs - 1 then emit (Sleep 300) st3 else st3)
             in translate_loop translateText totalJobs (index + 1) (done + 1) rest st4))"

definition handleTranslateAll ::
  "(nat \<Rightarrow> TranslateAllJob \<Rightarrow> string option) \<Rightarrow> (string \<Rightarrow> string \<Rightarrow> cell_read) \<Rightarrow> string \<Rightarrow>
   TranslationKey list \<Rightarrow> Language list \<Rightarrow> string \<Rightarrow> AppState \<Rightarrow> outcome \<times> AppState"
where
  "handleTranslateAll translateText member_cell openAiApiKey ks activeLanguages src st =
    (if openAiApiKey = [] then (Failed ''errors.openAiKeyMissing'', st)
     else
       (case collectTranslateAllJobs member_cell ks (app_values st) activeLanguages src of
          Inl err \<Rightarrow> (Thrown err, st)
        | Inr jobs \<Rightarrow>
            if jobs = [] then (Failed ''translateAll.noMissing'', st)
            else translate_loop translateText (length jobs) 0 0 jobs
                   (emit (Progress 0 (length jobs)) st)))"

subsection \<open>What the job list is specified to be\<close>


definition blank :: "string \<Rightarrow> bool" where
  "blank s = (trim s = [])"





subsection \<open>What a run is specified to leave behind\<close>

text \<open>
  \<open>put_cell\<close> is the update of the table that \<open>handleSave\<close> makes; \<open>saved_events\<close> is
  the trace of one job that is translated and saved; \<open>attempts\<close> are the jobs sent to
  the provider and \<open>progress_calls\<close> the arguments of the progress callback, in the
  order of a trace.
\<close>

definition put_cell ::
  "(string \<rightharpoonup> TranslationValue) \<Rightarrow> string \<Rightarrow> string \<Rightarrow> string \<Rightarrow> (string \<rightharpoonup> TranslationValue)"
where
  "put_cell vals k c v =
    vals(k \<mapsto> (case vals k of None \<Rightarrow> Map.empty | Some r \<Rightarrow> r)(c \<mapsto> v))"

definition saved_events :: "nat \<Rightarrow> nat \<Rightarrow> TranslateAllJob \<Rightarrow> string \<Rightarrow> event list" where
  "saved_events n j job translated =
    [Translate job, PostUpdateValue (keyId job) (targetLangCode job) translated, Progress (j + 1) n]
    @ (if j + 1 < n then [Sleep 300] else [])"

fun attempts :: "event list \<Rightarrow> TranslateAllJob list" where
  "attempts [] = []"
| "attempts (Translate job # es) = job # attempts es"
| "attempts (e # es) = attempts es"

fun progress_calls :: "event list \<Rightarrow> (nat \<times> nat) list" where
  "progress_calls [] = []"
| "progress_calls (Progress d n # es) = (d, n) # progress_calls es"
| "progress_calls (e # es) = progress_calls es"

subsection \<open>Rank of a language code\<close>


subsection \<open>What a load is specified to contain\<close>

text \<open>
  \<open>flat_file\<close> is the flattened document of one language file; the language codes of
  a catalog directory are the base names of its JSON files, and its key union is the
  set of the flat keys of all these files.
\<close>

definition flat_file :: "(utf16 \<Rightarrow> json option) \<Rightarrow> directory \<Rightarrow> string \<Rightarrow> (string \<times> string) list" where
  "flat_file JSON_parse dir c =
    (case readJsonFile JSON_parse dir (json_path c) of
       Inl err \<Rightarrow> []
     | Inr json \<Rightarrow> flattenObject json [] [])"

definition catalog_codes :: "directory \<Rightarrow> string set" where
  "catalog_codes dir = basename_json ` set (json_files dir)"

definition catalog_keys :: "(utf16 \<Rightarrow> json option) \<Rightarrow> directory \<Rightarrow> string set" where
  "catalog_keys JSON_parse dir = (\<Union>c\<in>catalog_codes dir. fst ` set (flat_file JSON_parse dir c))"

subsection \<open>Paths in a document\<close>

text \<open>
  \<open>is_prefix\<close> compares dot-paths segment by segment.  \<open>plain_along current parts\<close>
  holds when every intermediate node along the path is an own property of its parent
  and a plain object.  \<open>child_at\<close> is the object that \<open>setNestedValue\<close> descends into:
  the plain object found at a part, or a fresh one.  \<open>own_path\<close> follows a path
  through own properties of plain objects only.
\<close>

fun is_prefix :: "'a list \<Rightarrow> 'a list \<Rightarrow> bool" where
  "is_prefix [] ys = True"
| "is_prefix (x # xs) [] = False"
| "is_prefix (x # xs) (y # ys) = (x = y \<and> is_prefix xs ys)"

fun plain_along :: "(string \<times> json) list \<Rightarrow> string list \<Rightarrow> bool" where
  "plain_along current [] = True"
| "plain_along current [part] = True"
| "plain_along current (part # rest) =
    (case map_of current part of
       Some (JObj child) \<Rightarrow> plain_along child rest
     | _ \<Rightarrow> False)"

definition child_at :: "(string \<times> json) list \<Rightarrow> string \<Rightarrow> (string \<times> json) list" where
  "child_at current part = (case map_of current part of Some (JObj child) \<Rightarrow> child | _ \<Rightarrow> [])"

fun own_path :: "json \<Rightarrow> string list \<Rightarrow> json option" where
  "own_path current [] = Some current"
| "own_path (JObj kvs) (part # rest) =
    (case map_of kvs part of None \<Rightarrow> None | Some next \<Rightarrow> own_path next rest)"
| "own_path current (part # rest) = None"

subsection \<open>Flat maps and the documents built from them\<close>

text \<open>
  \<open>unflatten m\<close> applies \<open>setNestedValue\<close> for each entry of the flat map \<open>m\<close>, in
  the order of the list, to an empty object; it stops at a write that has gone to
  \<open>Object.prototype\<close>.  \<open>full_key\<close> is the key \<open>flattenObject\<close> builds from its prefix
  and a property name, \<open>path_key\<close> the key it builds along a path, and \<open>flat_list\<close>
  the list of the assignments to \<open>out\<close> it makes for a document of strings and plain
  objects.  \<open>wf_tree\<close> holds of such a document when no object of it has a property
  name twice; \<open>leaf\<close> is a string found at a path.  \<open>free_along\<close> holds when every
  intermediate node that the document has along a path is a plain object.
\<close>

definition unflatten ::
  "(string \<times> string) list \<Rightarrow> (string \<times> json) list \<times> (string list \<times> string) option"
where
  "unflatten m =
    fold (\<lambda>(k, v) (t, w). case w of None \<Rightarrow> setNestedValue t k v | Some p \<Rightarrow> (t, w)) m ([], None)"

definition full_key :: "string \<Rightarrow> string \<Rightarrow> string" where
  "full_key pre k = (if pre \<noteq> [] then pre @ ''.'' @ k else k)"

function flat_list :: "(string \<times> json) list \<Rightarrow> string \<Rightarrow> (string \<times> string) list" where
  "flat_list [] pre = []"
| "flat_list ((k, entry) # rest) pre =
    (case entry of
       JStr s \<Rightarrow> (full_key pre k, s) # flat_list rest pre
     | JObj kvs \<Rightarrow> flat_list kvs (full_key pre k) @ flat_list rest pre
     | _ \<Rightarrow> flat_list rest pre)"
  by pat_completeness auto
termination
  by (relation "measure (\<lambda>(kvs, pre). size_list (size_prod (\<lambda>k. 0) size) kvs)") auto

function wf_tree :: "(string \<times> json) list \<Rightarrow> bool" where
  "wf_tree [] = True"
| "wf_tree ((k, entry) # rest) =
    (\<not> has_key k rest \<and> wf_tree rest \<and>
     (case entry of JStr s \<Rightarrow> True | JObj kvs \<Rightarrow> wf_tree kvs | _ \<Rightarrow> False))"
  by pat_completeness auto
termination
  by (relation "measure (size_list (size_prod (\<lambda>k. 0) size))") auto

fun path_key :: "string \<Rightarrow> string list \<Rightarrow> string" where
  "path_key pre [] = pre"
| "path_key pre (k # ks) = path_key (full_key pre k) ks"

definition leaf :: "(string \<times> json) list \<Rightarrow> string list \<Rightarrow> string \<Rightarrow> bool" where
  "leaf kvs path s = (path \<noteq> [] \<and> own_path (JObj kvs) path = Some (JStr s))"

definition node_ok :: "json \<Rightarrow> bool" where
  "node_ok e = (case e of JStr s \<Rightarrow> True | JObj kvs \<Rightarrow> wf_tree kvs | _ \<Rightarrow> False)"

fun free_along :: "(string \<times> json) list \<Rightarrow> string list \<Rightarrow> bool" where
  "free_along current [] = True"
| "free_along current [part] = True"
| "free_along current (part # rest) =
    (case map_of current part of
       None \<Rightarrow> True
     | Some (JObj child) \<Rightarrow> free_along child rest
     | Some node \<Rightarrow> False)"

section \<open>Properties of the Token/Cost Estimator\<close>







text \<open>
  Claim C10.  The default model identifier \<open>gpt-5-nano-2025-08-07\<close> is not a key of the
  price table, so for all token counts the cost estimate for it is \<open>null\<close>.
\<close>

theorem default_model_cost_unknown:
  "DEFAULT_OPENAI_MODEL \<notin> fst ` set OPENAI_PRICING_PER_MILLION \<and>
   estimateOpenAiCost ar p c DEFAULT_OPENAI_MODEL = None"
  by (simp add: estimateOpenAiCost_def OPENAI_PRICING_PER_MILLION_def DEFAULT_OPENAI_MODEL_def
      inherited_def object_member_def OBJECT_PROTOTYPE_FUNCTIONS_def)

section \<open>Properties of the Batch Translation Orchestrator\<close>

subsection \<open>Job discovery\<close>

lemma all_dropWhile: "(\<forall>x\<in>set (dropWhile P s). P x) \<longleftrightarrow> (\<forall>x\<in>set s. P x)"
  by (induction s) auto

lemma blank_iff: "blank s \<longleftrightarrow> (\<forall>c \<in> set s. is_space c)"
  by (simp add: blank_def trim_def all_dropWhile)















subsection \<open>The batch run\<close>

lemma handleSave_stay:
  "handleSave st k c v True =
     st\<lparr>app_values := put_cell (app_values st) k c v,
        events := events st @ [PostUpdateValue k c v]\<rparr>"
  by (simp add: handleSave_def put_cell_def emit_def Let_def)

lemma fold_upt_Suc: "fold f [0..<Suc p] v = fold (\<lambda>q. f (Suc q)) [0..<p] (f 0 v)"
proof -
  have "[0..<Suc p] = 0 # map Suc [0..<p]"
    by (simp add: upt_conv_Cons map_Suc_upt del: upt_Suc)
  then show ?thesis
    by (simp add: fold_map comp_def del: upt_Suc)
qed

lemma loop_fail:
  assumes "p < length js" "translateText (idx + p) (js ! p) = None"
    "\<And>q. q < p \<Longrightarrow> translateText (idx + q) (js ! q) = Some (ans q)" "idx + length js = n"
  shows "translate_loop translateText n idx idx js st =
    (Failed ''errors.translationFailed'',
     st\<lparr>app_values :=
          fold (\<lambda>q vals. put_cell vals (keyId (js ! q)) (targetLangCode (js ! q)) (ans q))
               [0..<p] (app_values st),
        events := events st
          @ concat (map (\<lambda>q. saved_events n (idx + q) (js ! q) (ans q)) [0..<p])
          @ [Translate (js ! p), Progress (idx + p + 1) n]\<rparr>)"
  using assms
proof (induction js arbitrary: p idx st ans)
  case Nil
  then show ?case by simp
next
  case (Cons job rest)
  show ?case
  proof (cases p)
    case 0
    with Cons.prems show ?thesis
      by (simp add: emit_def)
  next
    case (Suc p')
    from Cons.prems(3)[of 0] Suc have a0: "translateText idx job = Some (ans 0)"
      by simp
    have sl: "int idx < int n - 1"
      using Cons.prems(1,4) Suc by simp
    define st4 where "st4 = emit (Sleep 300) (emit (Progress (idx + 1) n) (handleSave (emit (Translate job) st) (keyId job) (targetLangCode job) (ans 0) True))"
    have step: "translate_loop translateText n idx idx (job # rest) st =
                translate_loop translateText n (idx + 1) (idx + 1) rest st4"
      using a0 sl by (simp add: st4_def Let_def)
    have ih: "translate_loop translateText n (idx + 1) (idx + 1) rest st4 =
      (Failed ''errors.translationFailed'',
       st4\<lparr>app_values :=
          fold (\<lambda>q vals. put_cell vals (keyId (rest ! q)) (targetLangCode (rest ! q)) (ans (Suc q)))
               [0..<p'] (app_values st4),
        events := events st4
          @ concat (map (\<lambda>q. saved_events n (idx + 1 + q) (rest ! q) (ans (Suc q))) [0..<p'])
          @ [Translate (rest ! p'), Progress (idx + 1 + p' + 1) n]\<rparr>)"
    proof (rule Cons.IH)
      show "p' < length rest" using Cons.prems(1) Suc by simp
      show "translateText (idx + 1 + p') (rest ! p') = None"
        using Cons.prems(2) Suc by simp
      show "\<And>q. q < p' \<Longrightarrow> translateText (idx + 1 + q) (rest ! q) = Some (ans (Suc q))"
        using Cons.prems(3)[of "Suc _"] Suc by simp
      show "idx + 1 + length rest = n" using Cons.prems(4) by simp
    qed
    have v4: "app_values st4 = put_cell (app_values st) (keyId job) (targetLangCode job) (ans 0)"
      by (simp add: st4_def emit_def handleSave_stay)
    have e4: "events st4 = events st @ saved_events n idx job (ans 0)"
      using sl by (simp add: st4_def emit_def handleSave_stay saved_events_def)
    have c4: "currentView st4 = currentView st"
      by (simp add: st4_def emit_def handleSave_stay)
    have m: "map (\<lambda>q. saved_events n (idx + q) ((job # rest) ! q) (ans q)) [0..<Suc p'] =
             saved_events n idx job (ans 0) #
             map (\<lambda>q. saved_events n (idx + 1 + q) (rest ! q) (ans (Suc q))) [0..<p']"
      by (simp add: map_upt_Suc del: upt_Suc)
    have f: "fold (\<lambda>q vals. put_cell vals (keyId ((job # rest) ! q)) (targetLangCode ((job # rest) ! q)) (ans q))
               [0..<Suc p'] (app_values st) =
             fold (\<lambda>q vals. put_cell vals (keyId (rest ! q)) (targetLangCode (rest ! q)) (ans (Suc q)))
               [0..<p'] (app_values st4)"
      by (simp add: fold_upt_Suc v4 del: upt_Suc)
    show ?thesis
      unfolding step ih Suc m f
      by (simp add: e4 c4 v4 del: upt_Suc)
  qed
qed

lemma attempts_append: "attempts (xs @ ys) = attempts xs @ attempts ys"
  by (induction xs rule: attempts.induct) simp_all

lemma progress_calls_append: "progress_calls (xs @ ys) = progress_calls xs @ progress_calls ys"
  by (induction xs rule: progress_calls.induct) simp_all

lemma attempts_saved: "attempts (saved_events n j job t) = [job]"
  by (simp add: saved_events_def)

lemma progress_saved: "progress_calls (saved_events n j job t) = [(j + 1, n)]"
  by (simp add: saved_events_def)

lemma attempts_concat:
  "i \<le> length jobs \<Longrightarrow>
   attempts (concat (map (\<lambda>q. saved_events n q (jobs ! q) (ans q)) [0..<i])) = take i jobs"
  by (induction i) (simp_all add: attempts_append attempts_saved take_Suc_conv_app_nth)

lemma progress_concat:
  "progress_calls (concat (map (\<lambda>q. saved_events n q (jobs ! q) (ans q)) [0..<i])) =
   map (\<lambda>d. (d, n)) [1..<Suc i]"
  by (induction i) (simp_all add: progress_calls_append progress_saved)

text \<open>
  Claim C2.  The batch run takes its jobs, the list that \<open>collectTranslateAllJobs\<close>
  returns, strictly in order and stops at the first
  job whose provider call is rejected: it returns the error, no later job is sent to
  the provider, and the cells saved for the earlier jobs stay in the table and stay
  posted to the store (no rollback).  After each job, saved or rejected, the progress
  callback gets the new count of jobs done and the total.  Here \<open>i\<close> is the position of
  the first rejected call and \<open>ans q\<close> the answer to the earlier call \<open>q\<close>.
\<close>

theorem handleTranslateAll_aborts:
  fixes ks :: "TranslationKey list" and activeLanguages :: "Language list"
  assumes "openAiApiKey \<noteq> []"
    and "collectTranslateAllJobs member_cell ks (app_values st) activeLanguages src = Inr jobs"
    and "i < length jobs"
    and "translateText i (jobs ! i) = None"
    and "\<forall>q<i. translateText q (jobs ! q) = Some (ans q)"
    and "(r, st') =
          handleTranslateAll translateText member_cell openAiApiKey ks activeLanguages src st"
  shows "r = Failed ''errors.translationFailed'' \<and>
     events st' = events st @ [Progress 0 (length jobs)]
          @ concat (map (\<lambda>q. saved_events (length jobs) q (jobs ! q) (ans q)) [0..<i])
          @ [Translate (jobs ! i), Progress (i + 1) (length jobs)] \<and>
     app_values st' =
       fold (\<lambda>q vals. put_cell vals (keyId (jobs ! q)) (targetLangCode (jobs ! q)) (ans q))
            [0..<i] (app_values st) \<and>
     attempts (events st') = attempts (events st) @ take (i + 1) jobs \<and>
     progress_calls (events st') =
       progress_calls (events st) @ map (\<lambda>d. (d, length jobs)) [0..<i + 2]"
proof -
  define st0 where "st0 = emit (Progress 0 (length jobs)) st"
  have ne: "jobs \<noteq> []"
    using assms(3) by auto
  have run: "handleTranslateAll translateText member_cell openAiApiKey ks activeLanguages src st =
             translate_loop translateText (length jobs) 0 0 jobs st0"
    using assms(1) ne
    by (simp add: handleTranslateAll_def assms(2) st0_def)
  have loop: "translate_loop translateText (length jobs) 0 0 jobs st0 =
    (Failed ''errors.translationFailed'',
     st0\<lparr>app_values :=
          fold (\<lambda>q vals. put_cell vals (keyId (jobs ! q)) (targetLangCode (jobs ! q)) (ans q))
               [0..<i] (app_values st0),
        events := events st0
          @ concat (map (\<lambda>q. saved_events (length jobs) (0 + q) (jobs ! q) (ans q)) [0..<i])
          @ [Translate (jobs ! i), Progress (0 + i + 1) (length jobs)]\<rparr>)"
    by (rule loop_fail) (use assms in simp_all)
  have r: "r = Failed ''errors.translationFailed''"
    and st': "st' = st0\<lparr>app_values :=
          fold (\<lambda>q vals. put_cell vals (keyId (jobs ! q)) (targetLangCode (jobs ! q)) (ans q))
               [0..<i] (app_values st0),
        events := events st0
          @ concat (map (\<lambda>q. saved_events (length jobs) q (jobs ! q) (ans q)) [0..<i])
          @ [Translate (jobs ! i), Progress (i + 1) (length jobs)]\<rparr>"
    using assms(6) run loop by simp_all
  have ev: "events st' = events st @ [Progress 0 (length jobs)]
          @ concat (map (\<lambda>q. saved_events (length jobs) q (jobs ! q) (ans q)) [0..<i])
          @ [Translate (jobs ! i), Progress (i + 1) (length jobs)]"
    by (simp add: st' st0_def emit_def)
  have va: "app_values st' =
       fold (\<lambda>q vals. put_cell vals (keyId (jobs ! q)) (targetLangCode (jobs ! q)) (ans q))
            [0..<i] (app_values st)"
    by (simp add: st' st0_def emit_def)
  have at: "attempts (events st') = attempts (events st) @ take (i + 1) jobs"
    using assms(3)
    by (simp add: ev attempts_append attempts_concat take_Suc_conv_app_nth)
  have "map (\<lambda>d. (d, length jobs)) [0..<i + 2] =
        (0, length jobs) # map (\<lambda>d. (d, length jobs)) [1..<Suc i] @ [(i + 1, length jobs)]"
    by (simp add: upt_conv_Cons del: upt_Suc) (simp add: upt_conv_Cons)
  then have pr: "progress_calls (events st') =
       progress_calls (events st) @ map (\<lambda>d. (d, length jobs)) [0..<i + 2]"
    by (simp add: ev progress_calls_append progress_concat del: upt_Suc)
  show ?thesis
    using r ev va at pr by blast
qed

theorem handleTranslateAll_aborts_witness:
  "(let ks = [\<lparr>id' = ''a'', key = ''a'', tags = []\<rparr>];
        langs = [\<lparr>code = ''en'', name = ''English'', flag = []\<rparr>,
                 \<lparr>code = ''fr'', name = ''French'', flag = []\<rparr>,
                 \<lparr>code = ''de'', name = ''German'', flag = []\<rparr>,
                 \<lparr>code = ''es'', name = ''Spanish'', flag = []\<rparr>];
        st = \<lparr>app_values = [''a'' \<mapsto> [''en'' \<mapsto> ''Hello'']], currentView = list, events = []\<rparr>;
        provider = (\<lambda>n job. if n = 1 then None else Some ''T'');
        job = (\<lambda>c n. \<lparr>keyId = ''a'', keyName = ''a'', sourceText = ''Hello'',
                         targetLangCode = c, targetLangName = n, sourceLangName = ''English''\<rparr>);
        run = handleTranslateAll provider (\<lambda>k c. Fault) ''sk-1'' ks langs ''en'' st
    in collectTranslateAllJobs (\<lambda>k c. Fault) ks (app_values st) langs ''en'' =
         Inr [job ''fr'' ''French'', job ''de'' ''German'', job ''es'' ''Spanish''] \<and>
       fst run = Failed ''errors.translationFailed'' \<and>
       events (snd run) =
         [Progress 0 3,
          Translate (job ''fr'' ''French''), PostUpdateValue ''a'' ''fr'' ''T'', Progress 1 3, Sleep 300,
          Translate (job ''de'' ''German''), Progress 2 3] \<and>
       app_values (snd run) = [''a'' \<mapsto> [''en'' \<mapsto> ''Hello'', ''fr'' \<mapsto> ''T'']] \<and>
       attempts (events (snd run)) = [job ''fr'' ''French'', job ''de'' ''German''] \<and>
       progress_calls (events (snd run)) = [(0, 3), (1, 3), (2, 3)])"
proof -
  define ks where "ks = [\<lparr>id' = ''a'', key = ''a'', tags = []\<rparr>]"
  define langs where "langs = [\<lparr>code = ''en'', name = ''English'', flag = []\<rparr>,
                 \<lparr>code = ''fr'', name = ''French'', flag = []\<rparr>,
                 \<lparr>code = ''de'', name = ''German'', flag = []\<rparr>,
                 \<lparr>code = ''es'', name = ''Spanish'', flag = []\<rparr>]"
  define st where "st = \<lparr>app_values = [''a'' \<mapsto> [''en'' \<mapsto> ''Hello'']], currentView = list, events = []\<rparr>"
  define provider :: "nat \<Rightarrow> TranslateAllJob \<Rightarrow> string option"
    where "provider = (\<lambda>n job. if n = 1 then None else Some ''T'')"
  define job where "job = (\<lambda>c n. \<lparr>keyId = ''a'', keyName = ''a'', sourceText = ''Hello'',
                         targetLangCode = c, targetLangName = n, sourceLangName = ''English''\<rparr>)"
  define run where "run = handleTranslateAll provider (\<lambda>k c. Fault) ''sk-1'' ks langs ''en'' st"
  have jobs: "collectTranslateAllJobs (\<lambda>k c. Fault) ks (app_values st) langs ''en'' =
         Inr [job ''fr'' ''French'', job ''de'' ''German'', job ''es'' ''Spanish'']"
    unfolding ks_def st_def langs_def job_def by code_simp
  have res: "fst run = Failed ''errors.translationFailed'' \<and>
     events (snd run) = events st @ [Progress 0 (length [job ''fr'' ''French'', job ''de'' ''German'', job ''es'' ''Spanish''])]
          @ concat (map (\<lambda>q. saved_events (length [job ''fr'' ''French'', job ''de'' ''German'', job ''es'' ''Spanish'']) q
                 ([job ''fr'' ''French'', job ''de'' ''German'', job ''es'' ''Spanish''] ! q) ''T'') [0..<1])
          @ [Translate ([job ''fr'' ''French'', job ''de'' ''German'', job ''es'' ''Spanish''] ! 1),
             Progress (1 + 1) (length [job ''fr'' ''French'', job ''de'' ''German'', job ''es'' ''Spanish''])] \<and>
     app_values (snd run) =
       fold (\<lambda>q vals. put_cell vals (keyId ([job ''fr'' ''French'', job ''de'' ''German'', job ''es'' ''Spanish''] ! q))
                 (targetLangCode ([job ''fr'' ''French'', job ''de'' ''German'', job ''es'' ''Spanish''] ! q)) ''T'')
            [0..<1] (app_values st) \<and>
     attempts (events (snd run)) = attempts (events st) @ take (1 + 1) [job ''fr'' ''French'', job ''de'' ''German'', job ''es'' ''Spanish''] \<and>
     progress_calls (events (snd run)) =
       progress_calls (events st) @ map (\<lambda>d. (d, length [job ''fr'' ''French'', job ''de'' ''German'', job ''es'' ''Spanish''])) [0..<1 + 2]"
  proof (rule handleTranslateAll_aborts [where openAiApiKey = "''sk-1''" and translateText = provider
          and member_cell = "\<lambda>k c. Fault"
          and ks = ks and activeLanguages = langs and src = "''en''" and st = st and i = 1
          and ans = "\<lambda>q. ''T''"])
    show "''sk-1'' \<noteq> []" by simp
    show "collectTranslateAllJobs (\<lambda>k c. Fault) ks (app_values st) langs ''en'' =
          Inr [job ''fr'' ''French'', job ''de'' ''German'', job ''es'' ''Spanish'']"
      using jobs by simp
    show "1 < length [job ''fr'' ''French'', job ''de'' ''German'', job ''es'' ''Spanish'']" by simp
    show "provider 1 ([job ''fr'' ''French'', job ''de'' ''German'', job ''es'' ''Spanish''] ! 1) = None"
      by (simp add: provider_def)
    show "\<forall>q<1. provider q ([job ''fr'' ''French'', job ''de'' ''German'', job ''es'' ''Spanish''] ! q) = Some ''T''"
      by (simp add: provider_def)
    show "(fst run, snd run) = handleTranslateAll provider (\<lambda>k c. Fault) ''sk-1'' ks langs ''en'' st"
      by (simp add: run_def)
  qed
  have st_ev: "events st = []" and st_va: "app_values st = [''a'' \<mapsto> [''en'' \<mapsto> ''Hello'']]"
    by (simp_all add: st_def)
  have k: "keyId (job c n) = ''a''" "targetLangCode (job c n) = c" for c n
    by (simp_all add: job_def)
  have "fst run = Failed ''errors.translationFailed'' \<and>
       events (snd run) =
         [Progress 0 3,
          Translate (job ''fr'' ''French''), PostUpdateValue ''a'' ''fr'' ''T'', Progress 1 3, Sleep 300,
          Translate (job ''de'' ''German''), Progress 2 3] \<and>
       app_values (snd run) = [''a'' \<mapsto> [''en'' \<mapsto> ''Hello'', ''fr'' \<mapsto> ''T'']] \<and>
       attempts (events (snd run)) = [job ''fr'' ''French'', job ''de'' ''German''] \<and>
       progress_calls (events (snd run)) = [(0, 3), (1, 3), (2, 3)]"
    using res
    by (simp add: st_ev st_va k saved_events_def put_cell_def eval_nat_numeral)
  with jobs show ?thesis
    by (simp add: Let_def ks_def langs_def st_def provider_def job_def run_def)
qed

section \<open>Properties of the Language Registry\<close>













section \<open>Properties of the Catalog Store\<close>

subsection \<open>Reading a language file\<close>

text \<open>
  Claim C7, as the code has it.  \<open>readJsonFile\<close> propagates no failure of parsing;
  the one failure it propagates is the error of reading an entry that exists and
  cannot be read.  A missing file gives the empty object; a leading byte-order mark
  is removed before the text is parsed; when the parser rejects the text, or the
  parsed value is not of type \<open>object\<close> or is \<open>null\<close>, the result is the empty
  object.  Otherwise the parsed value is returned; the values of type \<open>object\<close> other
  than \<open>null\<close> are the plain objects and the arrays.
\<close>

theorem readJsonFile_recovers:
  "((\<exists>err. readJsonFile JSON_parse dir filePath = Inl err) \<longleftrightarrow>
      map_of dir filePath = Some Unreadable) \<and>
   (map_of dir filePath = Some Unreadable \<longrightarrow>
      readJsonFile JSON_parse dir filePath = Inl ReadError) \<and>
   (\<not> existsSync dir filePath \<longrightarrow> readJsonFile JSON_parse dir filePath = Inr (JObj [])) \<and>
   (map_of dir filePath = Some e \<and> readFileSync e = Inr (BOM # raw) \<longrightarrow>
      readJsonFile JSON_parse dir filePath =
        Inr (case JSON_parse raw of
               None \<Rightarrow> JObj []
             | Some parsed \<Rightarrow> if typeof_object parsed \<and> parsed \<noteq> JNull then parsed else JObj [])) \<and>
   (map_of dir filePath = Some e \<and> readFileSync e = Inr content \<and>
      JSON_parse (strip_bom content) = None \<longrightarrow>
      readJsonFile JSON_parse dir filePath = Inr (JObj [])) \<and>
   (map_of dir filePath = Some e \<and> readFileSync e = Inr content \<and>
      JSON_parse (strip_bom content) = Some parsed \<and>
      (\<not> typeof_object parsed \<or> parsed = JNull) \<longrightarrow>
      readJsonFile JSON_parse dir filePath = Inr (JObj [])) \<and>
   (map_of dir filePath = Some e \<and> readFileSync e = Inr content \<and>
      JSON_parse (strip_bom content) = Some parsed \<and>
      typeof_object parsed \<and> parsed \<noteq> JNull \<longrightarrow>
      readJsonFile JSON_parse dir filePath = Inr parsed) \<and>
   ((typeof_object parsed \<and> parsed \<noteq> JNull) =
      (case parsed of JObj kvs \<Rightarrow> True | JArr xs \<Rightarrow> True | _ \<Rightarrow> False))"
proof -
  have fail: "(\<exists>err. readJsonFile JSON_parse dir filePath = Inl err) \<longleftrightarrow>
      map_of dir filePath = Some Unreadable"
  proof (cases "map_of dir filePath")
    case None
    then show ?thesis by (simp add: readJsonFile_def)
  next
    case (Some en)
    then show ?thesis
      by (cases en) (simp_all add: readJsonFile_def Let_def split: option.splits)
  qed
  have unreadable: "map_of dir filePath = Some Unreadable \<longrightarrow>
      readJsonFile JSON_parse dir filePath = Inl ReadError"
    by (simp add: readJsonFile_def)
  have missing: "\<not> existsSync dir filePath \<longrightarrow> readJsonFile JSON_parse dir filePath = Inr (JObj [])"
    by (simp add: readJsonFile_def existsSync_def)
  have bom: "map_of dir filePath = Some e \<and> readFileSync e = Inr (BOM # raw) \<longrightarrow>
      readJsonFile JSON_parse dir filePath =
        Inr (case JSON_parse raw of
               None \<Rightarrow> JObj []
             | Some parsed \<Rightarrow> if typeof_object parsed \<and> parsed \<noteq> JNull then parsed else JObj [])"
    by (simp add: readJsonFile_def Let_def split: option.splits)
  have rejected: "map_of dir filePath = Some e \<and> readFileSync e = Inr content \<and>
      JSON_parse (strip_bom content) = None \<longrightarrow>
      readJsonFile JSON_parse dir filePath = Inr (JObj [])"
    by (simp add: readJsonFile_def Let_def)
  have other: "map_of dir filePath = Some e \<and> readFileSync e = Inr content \<and>
      JSON_parse (strip_bom content) = Some parsed \<and>
      (\<not> typeof_object parsed \<or> parsed = JNull) \<longrightarrow>
      readJsonFile JSON_parse dir filePath = Inr (JObj [])"
    by (auto simp add: readJsonFile_def Let_def)
  have object: "map_of dir filePath = Some e \<and> readFileSync e = Inr content \<and>
      JSON_parse (strip_bom content) = Some parsed \<and>
      typeof_object parsed \<and> parsed \<noteq> JNull \<longrightarrow>
      readJsonFile JSON_parse dir filePath = Inr parsed"
    by (simp add: readJsonFile_def Let_def)
  have kinds: "(typeof_object parsed \<and> parsed \<noteq> JNull) =
      (case parsed of JObj kvs \<Rightarrow> True | JArr xs \<Rightarrow> True | _ \<Rightarrow> False)"
    by (cases parsed) simp_all
  from fail unreadable missing bom rejected other object kinds show ?thesis
    by (intro conjI)
qed

text \<open>In the witness the parser reads the texts \<open>{"a":"b"}\<close>, \<open>5\<close> and \<open>null\<close> as
  JSON does and rejects the others.\<close>

theorem readJsonFile_recovers_witness:
  "(let parser = (\<lambda>raw. if raw = [0x7B, 0x22, 0x61, 0x22, 0x3A, 0x22, 0x62, 0x22, 0x7D]
                          then Some (JObj [(''a'', JStr ''b'')])
                          else if raw = [0x35] then Some (JNum 5)
                          else if raw = [0x6E, 0x75, 0x6C, 0x6C] then Some JNull
                          else None);
        dir = [(''en.json'', File [BOM, 0x7B, 0x22, 0x61, 0x22, 0x3A, 0x22, 0x62, 0x22, 0x7D]),
               (''fr.json'', File [0x35]),
               (''de.json'', ReadOnly [0x7B, 0x6F]),
               (''it.json'', File [0x6E, 0x75, 0x6C, 0x6C]),
               (''pt.json'', Unreadable)]
    in readJsonFile parser dir ''es.json'' = Inr (JObj []) \<and>
       readJsonFile parser dir ''en.json'' = Inr (JObj [(''a'', JStr ''b'')]) \<and>
       readJsonFile parser dir ''fr.json'' = Inr (JObj []) \<and>
       readJsonFile parser dir ''de.json'' = Inr (JObj []) \<and>
       readJsonFile parser dir ''it.json'' = Inr (JObj []) \<and>
       readJsonFile parser dir ''pt.json'' = Inl ReadError)"
proof -
  define parser :: "utf16 \<Rightarrow> json option" where
    "parser = (\<lambda>raw. if raw = [0x7B, 0x22, 0x61, 0x22, 0x3A, 0x22, 0x62, 0x22, 0x7D]
                          then Some (JObj [(''a'', JStr ''b'')])
                          else if raw = [0x35] then Some (JNum 5)
                          else if raw = [0x6E, 0x75, 0x6C, 0x6C] then Some JNull
                          else None)"
  define dir :: directory where
    "dir = [(''en.json'', File [BOM, 0x7B, 0x22, 0x61, 0x22, 0x3A, 0x22, 0x62, 0x22, 0x7D]),
               (''fr.json'', File [0x35]),
               (''de.json'', ReadOnly [0x7B, 0x6F]),
               (''it.json'', File [0x6E, 0x75, 0x6C, 0x6C]),
               (''pt.json'', Unreadable)]"
  have "readJsonFile parser dir ''es.json'' = Inr (JObj [])"
    using readJsonFile_recovers [of parser dir "''es.json''"]
    by (simp add: existsSync_def dir_def)
  moreover have "readJsonFile parser dir ''en.json'' = Inr (JObj [(''a'', JStr ''b'')])"
    using readJsonFile_recovers [of parser dir "''en.json''"
        "File [BOM, 0x7B, 0x22, 0x61, 0x22, 0x3A, 0x22, 0x62, 0x22, 0x7D]"
        "[0x7B, 0x22, 0x61, 0x22, 0x3A, 0x22, 0x62, 0x22, 0x7D]"]
    by (simp add: dir_def parser_def)
  moreover have "readJsonFile parser dir ''fr.json'' = Inr (JObj [])"
    using readJsonFile_recovers [of parser dir "''fr.json''" "File [0x35]" _ "[0x35]" "JNum 5"]
    by (simp add: dir_def parser_def BOM_def)
  moreover have "readJsonFile parser dir ''de.json'' = Inr (JObj [])"
    using readJsonFile_recovers [of parser dir "''de.json''" "ReadOnly [0x7B, 0x6F]" _ "[0x7B, 0x6F]"]
    by (simp add: dir_def parser_def BOM_def)
  moreover have "readJsonFile parser dir ''it.json'' = Inr (JObj [])"
    using readJsonFile_recovers [of parser dir "''it.json''" "File [0x6E, 0x75, 0x6C, 0x6C]" _
        "[0x6E, 0x75, 0x6C, 0x6C]" JNull]
    by (simp add: dir_def parser_def BOM_def)
  moreover have "readJsonFile parser dir ''pt.json'' = Inl ReadError"
    using readJsonFile_recovers [of parser dir "''pt.json''"]
    by (simp add: dir_def)
  ultimately show ?thesis
    by (simp add: Let_def parser_def dir_def)
qed

text \<open>The claim as it was stated fails for an entry that exists and cannot be read,
  a directory named \<open>x.json\<close>: the read error is propagated.\<close>

theorem readJsonFile_read_error:
  "existsSync [(''x.json'', Unreadable)] ''x.json'' \<and>
   readJsonFile (\<lambda>raw. None) [(''x.json'', Unreadable)] ''x.json'' = Inl ReadError"
  by (simp add: readJsonFile_def existsSync_def)

end
